theory Spec2Isabelle
  imports Main "HOL-Library.Sublist"
begin

section \<open>Python strings and the character classification they rely on\<close>

text \<open>
  A Python \<open>str\<close> is a sequence of Unicode code points. A code point is modelled as a
  natural number and a string as the list of its code points, so \<open>len\<close> is
  \<open>length\<close> and \<open>s.count(c)\<close> is \<open>count_list s c\<close>. The ASCII literals of
  the source are written with \<open>ascii\<close>.
\<close>

type_synonym cp = nat
type_synonym str = "cp list"

definition ascii :: "string \<Rightarrow> str" where
  "ascii s = map of_char s"

text \<open>
  The classification methods \<open>str.isupper\<close>, \<open>str.islower\<close>, \<open>str.isdigit\<close>,
  \<open>str.isspace\<close>, \<open>str.lower\<close> and the regular expression classes \<open>\d\<close> and
  \<open>\s\<close> read the Unicode character database of the Python runtime. The database is
  written out for the code points below 256 (Basic Latin and Latin-1 Supplement); the
  rest of it is a parameter \<open>U\<close> of every function that consults it, so that a theorem
  stated for all \<open>U\<close> holds whatever the database says beyond Latin-1.

  \<^item> \<open>ucd_upper\<close>, \<open>ucd_lower\<close>: the properties Uppercase and Lowercase;
  \<^item> \<open>ucd_decimal\<close>: general category Nd, which is what \<open>\d\<close> and
    \<open>str.isdecimal\<close> test;
  \<^item> \<open>ucd_digit_other\<close>: the digits that are not decimal characters;
    \<open>str.isdigit\<close> holds of the decimal characters and of these;
  \<^item> \<open>ucd_space\<close>: what \<open>str.isspace\<close> tests, which is also what \<open>\s\<close> matches in
    a \<open>str\<close> pattern;
  \<^item> \<open>ucd_tolower\<close>: the lowercase expansion of the character at a position of a
    string (the mapping of a character may depend on its neighbours, and may be several
    code points long).
\<close>

record ucd =
  ucd_upper :: "cp \<Rightarrow> bool"
  ucd_lower :: "cp \<Rightarrow> bool"
  ucd_decimal :: "cp \<Rightarrow> bool"
  ucd_digit_other :: "cp \<Rightarrow> bool"
  ucd_space :: "cp \<Rightarrow> bool"
  ucd_tolower :: "str \<Rightarrow> nat \<Rightarrow> str"

definition latin1_upper :: "cp \<Rightarrow> bool" where
  "latin1_upper c \<longleftrightarrow> (65 \<le> c \<and> c \<le> 90) \<or> (192 \<le> c \<and> c \<le> 214) \<or> (216 \<le> c \<and> c \<le> 222)"

definition latin1_lower :: "cp \<Rightarrow> bool" where
  "latin1_lower c \<longleftrightarrow> (97 \<le> c \<and> c \<le> 122) \<or> c = 170 \<or> c = 181 \<or> c = 186
     \<or> (223 \<le> c \<and> c \<le> 246) \<or> (248 \<le> c \<and> c \<le> 255)"

definition latin1_decimal :: "cp \<Rightarrow> bool" where
  "latin1_decimal c \<longleftrightarrow> 48 \<le> c \<and> c \<le> 57"

definition latin1_digit_other :: "cp \<Rightarrow> bool" where
  "latin1_digit_other c \<longleftrightarrow> c = 178 \<or> c = 179 \<or> c = 185"

definition latin1_space :: "cp \<Rightarrow> bool" where
  "latin1_space c \<longleftrightarrow> (9 \<le> c \<and> c \<le> 13) \<or> (28 \<le> c \<and> c \<le> 32) \<or> c = 133 \<or> c = 160"

definition latin1_tolower :: "cp \<Rightarrow> cp" where
  "latin1_tolower c = (if latin1_upper c then c + 32 else c)"

definition isupper :: "ucd \<Rightarrow> cp \<Rightarrow> bool" where
  "isupper U c = (if c < 256 then latin1_upper c else ucd_upper U c)"

definition islower :: "ucd \<Rightarrow> cp \<Rightarrow> bool" where
  "islower U c = (if c < 256 then latin1_lower c else ucd_lower U c)"

definition isdecimal :: "ucd \<Rightarrow> cp \<Rightarrow> bool" where
  "isdecimal U c = (if c < 256 then latin1_decimal c else ucd_decimal U c)"

definition isdigit :: "ucd \<Rightarrow> cp \<Rightarrow> bool" where
  "isdigit U c = (isdecimal U c \<or>
     (if c < 256 then latin1_digit_other c else ucd_digit_other U c))"

definition isspace :: "ucd \<Rightarrow> cp \<Rightarrow> bool" where
  "isspace U c = (if c < 256 then latin1_space c else ucd_space U c)"

text \<open>\<open>s.lower()\<close>: every character replaced by its lowercase expansion.\<close>

fun lower_from :: "ucd \<Rightarrow> str \<Rightarrow> nat \<Rightarrow> str \<Rightarrow> str" where
  "lower_from U s i [] = []"
| "lower_from U s i (c # cs) =
     (if c < 256 then [latin1_tolower c] else ucd_tolower U s i) @ lower_from U s (Suc i) cs"

definition lower :: "ucd \<Rightarrow> str \<Rightarrow> str" where
  "lower U s = lower_from U s 0 s"

text \<open>\<open>pat in s\<close> on strings: \<open>pat\<close> occurs in \<open>s\<close> as a contiguous substring.\<close>

fun startswith :: "str \<Rightarrow> str \<Rightarrow> bool" where
  "startswith s [] = True"
| "startswith [] (p # ps) = False"
| "startswith (c # cs) (p # ps) = (c = p \<and> startswith cs ps)"

fun str_contains :: "str \<Rightarrow> str \<Rightarrow> bool" where
  "str_contains [] pat = (pat = [])"
| "str_contains (c # cs) pat = (startswith (c # cs) pat \<or> str_contains cs pat)"

text \<open>
  \<open>re.search\<close> with a pattern that is one character class: the first character of the
  string that is in the class, or \<open>None\<close>. The source only tests the result for
  truth; a match object is true and \<open>None\<close> is false.
\<close>

fun re_search :: "(cp \<Rightarrow> bool) \<Rightarrow> str \<Rightarrow> cp option" where
  "re_search cls [] = None"
| "re_search cls (c # cs) = (if cls c then Some c else re_search cls cs)"

definition truthy :: "'a option \<Rightarrow> bool" where
  "truthy m = (case m of None \<Rightarrow> False | Some _ \<Rightarrow> True)"

text \<open>The character classes of the source's patterns. Ranges are ranges of code points.\<close>

definition cls_upper_AZ :: "cp \<Rightarrow> bool" where
  "cls_upper_AZ c \<longleftrightarrow> of_char CHR ''A'' \<le> c \<and> c \<le> of_char CHR ''Z''"

definition cls_lower_az :: "cp \<Rightarrow> bool" where
  "cls_lower_az c \<longleftrightarrow> of_char CHR ''a'' \<le> c \<and> c \<le> of_char CHR ''z''"

definition cls_letter :: "cp \<Rightarrow> bool" where
  "cls_letter c \<longleftrightarrow> cls_upper_AZ c \<or> cls_lower_az c"

definition cls_d :: "ucd \<Rightarrow> cp \<Rightarrow> bool" where
  "cls_d U c = isdecimal U c"

definition cls_s :: "ucd \<Rightarrow> cp \<Rightarrow> bool" where
  "cls_s U c = isspace U c"

definition SPECIAL_CHARS :: str where
  \<open>SPECIAL_CHARS = ascii ''!@#$%^&*(),.?":{}|<>''\<close>

definition cls_special :: "cp \<Rightarrow> bool" where
  "cls_special c \<longleftrightarrow> c \<in> set SPECIAL_CHARS"

section \<open>password_validator.py\<close>

definition COMMON_PASSWORDS :: "str set" where
  "COMMON_PASSWORDS = {ascii ''password'', ascii ''123456'', ascii ''qwerty'',
     ascii ''letmein'', ascii ''admin'', ascii ''iloveyou''}"

text \<open>
  \<open>has_excessive_repetition\<close>: the loop runs over \<open>set(password)\<close>, the distinct
  characters of the password, and returns at the first one that occurs more than
  \<open>len(password) // 2\<close> times.
\<close>

fun repetition_loop :: "str \<Rightarrow> cp list \<Rightarrow> bool" where
  "repetition_loop password [] = False"
| "repetition_loop password (char # rest) =
     (if count_list password char > length password div 2 then True
      else repetition_loop password rest)"

definition has_excessive_repetition :: "str \<Rightarrow> bool" where
  "has_excessive_repetition password = repetition_loop password (remdups password)"

definition patterns :: "str list" where
  "patterns = [ascii ''qwerty'', ascii ''asdfgh'', ascii ''zxcvbn'', ascii ''12345'',
     ascii ''password'']"

fun pattern_loop :: "ucd \<Rightarrow> str \<Rightarrow> str list \<Rightarrow> bool" where
  "pattern_loop U password [] = False"
| "pattern_loop U password (pat # rest) =
     (if str_contains (lower U password) pat then True else pattern_loop U password rest)"

definition has_keyboard_pattern :: "ucd \<Rightarrow> str \<Rightarrow> bool" where
  "has_keyboard_pattern U password = pattern_loop U password patterns"

definition ambiguous_groups :: "str list" where
  "ambiguous_groups = [ascii ''l1I'', ascii ''O0o'']"

fun ambiguous_loop :: "str \<Rightarrow> str list \<Rightarrow> bool" where
  "ambiguous_loop password [] = False"
| "ambiguous_loop password (grp # rest) =
     (if sum_list (map (count_list password) grp) > length password div 2 then True
      else ambiguous_loop password rest)"

definition has_ambiguous_characters :: "str \<Rightarrow> bool" where
  "has_ambiguous_characters password = ambiguous_loop password ambiguous_groups"

definition looks_human_like :: "ucd \<Rightarrow> str \<Rightarrow> bool" where
  "looks_human_like U password =
     (let has_letter = truthy (re_search cls_letter password);
          has_digit = truthy (re_search (cls_d U) password);
          has_symbol = truthy (re_search cls_special password)
      in has_letter \<and> has_digit \<and> has_symbol)"

text \<open>\<open>is_valid_password\<close>: eleven checks in the source's order, each an early return.\<close>

definition is_valid_password :: "ucd \<Rightarrow> str \<Rightarrow> bool" where
  "is_valid_password U password =
     (if password \<in> COMMON_PASSWORDS then False
      else if length password < 8 then False
      else if truthy (re_search (cls_s U) password) then False
      else if \<not> truthy (re_search cls_upper_AZ password) then False
      else if \<not> truthy (re_search cls_lower_az password) then False
      else if \<not> truthy (re_search (cls_d U) password) then False
      else if \<not> truthy (re_search cls_special password) then False
      else if has_excessive_repetition password then False
      else if has_keyboard_pattern U password then False
      else if has_ambiguous_characters password then False
      else if \<not> looks_human_like U password then False
      else True)"

text \<open>
  The same function on Python values. Python checks the type of a value when an operation
  is applied to it, so the parameter can be bound to any value, and an operation applied
  to a value it is not defined on raises. Three kinds of value are modelled: a string,
  \<open>None\<close> and an integer. Membership in a set of strings is false of a value that is
  no string; \<open>len\<close>, \<open>re.search\<close> and \<open>set\<close> raise \<open>TypeError\<close> on \<open>None\<close>
  and on an integer, and the methods \<open>lower\<close> and \<open>count\<close> are missing from them
  (\<open>AttributeError\<close>). A result is the exception raised (\<open>Inl\<close>) or the value
  returned (\<open>Inr\<close>).
\<close>

datatype pyval = Str str | NoneVal | IntVal int

datatype py_error = TypeError | AttributeError

definition py_in_common :: "pyval \<Rightarrow> py_error + bool" where
  "py_in_common v = (case v of Str s \<Rightarrow> Inr (s \<in> COMMON_PASSWORDS) | _ \<Rightarrow> Inr False)"

definition py_len :: "pyval \<Rightarrow> py_error + nat" where
  "py_len v = (case v of Str s \<Rightarrow> Inr (length s) | _ \<Rightarrow> Inl TypeError)"

definition py_re_search :: "(cp \<Rightarrow> bool) \<Rightarrow> pyval \<Rightarrow> py_error + cp option" where
  "py_re_search cls v = (case v of Str s \<Rightarrow> Inr (re_search cls s) | _ \<Rightarrow> Inl TypeError)"

definition py_has_excessive_repetition :: "pyval \<Rightarrow> py_error + bool" where
  "py_has_excessive_repetition v =
     (case v of Str s \<Rightarrow> Inr (has_excessive_repetition s) | _ \<Rightarrow> Inl TypeError)"

definition py_has_keyboard_pattern :: "ucd \<Rightarrow> pyval \<Rightarrow> py_error + bool" where
  "py_has_keyboard_pattern U v =
     (case v of Str s \<Rightarrow> Inr (has_keyboard_pattern U s) | _ \<Rightarrow> Inl AttributeError)"

definition py_has_ambiguous_characters :: "pyval \<Rightarrow> py_error + bool" where
  "py_has_ambiguous_characters v =
     (case v of Str s \<Rightarrow> Inr (has_ambiguous_characters s) | _ \<Rightarrow> Inl AttributeError)"

definition py_looks_human_like :: "ucd \<Rightarrow> pyval \<Rightarrow> py_error + bool" where
  "py_looks_human_like U v =
     (case v of Str s \<Rightarrow> Inr (looks_human_like U s) | _ \<Rightarrow> Inl TypeError)"

text \<open>
  \<open>if cond: return False\<close> followed by the rest of the body: an exception raised while
  the condition is evaluated leaves the function, a true condition returns false, and a
  false one goes on.
\<close>

definition return_false_if :: "py_error + bool \<Rightarrow> py_error + bool \<Rightarrow> py_error + bool" where
  "return_false_if cond rest =
     (case cond of Inl e \<Rightarrow> Inl e | Inr b \<Rightarrow> if b then Inr False else rest)"

definition py_is_valid_password :: "ucd \<Rightarrow> pyval \<Rightarrow> py_error + bool" where
  "py_is_valid_password U password =
     return_false_if (py_in_common password)
    (return_false_if (map_sum id (\<lambda>n. n < 8) (py_len password))
    (return_false_if (map_sum id truthy (py_re_search (cls_s U) password))
    (return_false_if (map_sum id (\<lambda>m. \<not> truthy m) (py_re_search cls_upper_AZ password))
    (return_false_if (map_sum id (\<lambda>m. \<not> truthy m) (py_re_search cls_lower_az password))
    (return_false_if (map_sum id (\<lambda>m. \<not> truthy m) (py_re_search (cls_d U) password))
    (return_false_if (map_sum id (\<lambda>m. \<not> truthy m) (py_re_search cls_special password))
    (return_false_if (py_has_excessive_repetition password)
    (return_false_if (py_has_keyboard_pattern U password)
    (return_false_if (py_has_ambiguous_characters password)
    (return_false_if (map_sum id Not (py_looks_human_like U password))
    (Inr True)))))))))))"

section \<open>app.py\<close>

text \<open>\<open>any\<close> over the booleans a generator yields, stopping at the first true one.\<close>

fun py_any :: "bool list \<Rightarrow> bool" where
  "py_any [] = False"
| "py_any (b # bs) = (if b then True else py_any bs)"

text \<open>The seven lambdas of \<open>self.requirements\<close>, in the order of the list.\<close>

definition check_length :: "str \<Rightarrow> bool" where
  "check_length pwd \<longleftrightarrow> length pwd \<ge> 8"

definition check_upper :: "ucd \<Rightarrow> str \<Rightarrow> bool" where
  "check_upper U pwd = py_any (map (isupper U) pwd)"

definition check_lower :: "ucd \<Rightarrow> str \<Rightarrow> bool" where
  "check_lower U pwd = py_any (map (islower U) pwd)"

definition check_digit :: "ucd \<Rightarrow> str \<Rightarrow> bool" where
  "check_digit U pwd = py_any (map (isdigit U) pwd)"

definition check_special :: "str \<Rightarrow> bool" where
  \<open>check_special pwd = py_any (map (\<lambda>c. c \<in> set (ascii ''!@#$%^&*(),.?":{}|<>'')) pwd)\<close>

definition check_no_whitespace :: "ucd \<Rightarrow> str \<Rightarrow> bool" where
  "check_no_whitespace U pwd = (\<not> py_any (map (isspace U) pwd))"

definition check_not_common :: "str \<Rightarrow> bool" where
  "check_not_common pwd \<longleftrightarrow> pwd \<notin> {ascii ''password'', ascii ''123456'', ascii ''qwerty'',
     ascii ''letmein'', ascii ''admin'', ascii ''iloveyou''}"

definition requirements :: "ucd \<Rightarrow> (string \<times> (str \<Rightarrow> bool)) list" where
  "requirements U =
     [(''At least 8 characters'', check_length),
      (''Contains uppercase letter'', check_upper U),
      (''Contains lowercase letter'', check_lower U),
      (''Contains digit'', check_digit U),
      (''Contains special character (!@#$%^&* etc.)'', check_special),
      (''No whitespace'', check_no_whitespace U),
      (''Not a common password'', check_not_common)]"

text \<open>
  The widgets the two handlers read and write: the entry's text, the text and colour of
  each checklist label, the rectangles on the strength bar (width and fill), the strength
  text, and the result label.
\<close>

record gui =
  pwd_entry :: str
  req_labels :: "(str \<times> string) list"
  strength_bar :: "(int \<times> string) list"
  strength_var :: str
  result_text :: str
  result_fg :: string

text \<open>\<open>sum(check(pwd) for _, check in self.requirements)\<close>: a true check counts 1.\<close>

definition gui_score :: "ucd \<Rightarrow> str \<Rightarrow> int" where
  "gui_score U pwd = sum_list (map (\<lambda>(text, check). of_bool (check pwd)) (requirements U))"

definition strength :: "int \<Rightarrow> string \<times> string" where
  "strength score =
     (if score \<le> 3 then (''#d32f2f'', ''Weak'')
      else if score \<le> 5 then (''#fbc02d'', ''Medium'')
      else (''#388e3c'', ''Strong''))"

text \<open>
  \<open>on_password_change\<close>. The constructor makes one label per requirement, so the loop
  over \<open>enumerate(self.requirements)\<close> rewrites every label; 10003 and 10007 are the
  check mark and the ballot cross.
\<close>

definition on_password_change :: "ucd \<Rightarrow> gui \<Rightarrow> gui" where
  "on_password_change U g =
     (let pwd = pwd_entry g;
          labels = map (\<lambda>(text, check).
                     if check pwd then ([10003, 32] @ ascii text, ''#388e3c'')
                     else ([10007, 32] @ ascii text, ''#d32f2f'')) (requirements U);
          score = gui_score U pwd;
          (color, label) = strength score
      in g\<lparr>req_labels := labels,
           strength_bar := [(score * 37, color)],
           strength_var := ascii ''Password strength: '' @ ascii label,
           result_text := []\<rparr>)"

text \<open>
  \<open>validate_password\<close>: an empty entry opens a warning box and changes nothing; 9989 and
  10060 are the two marks of the result text, 10 the line feed.
\<close>

datatype dialog = Showwarning string string

definition validate_password :: "ucd \<Rightarrow> gui \<Rightarrow> gui \<times> dialog option" where
  "validate_password U g =
     (let password = pwd_entry g in
      if password = [] then (g, Some (Showwarning ''Input Error'' ''Please enter a password.''))
      else if is_valid_password U password
      then (g\<lparr>result_text := ascii ''Accepted '' @ [9989, 10] @ password,
               result_fg := ''#388e3c''\<rparr>, None)
      else (g\<lparr>result_text := ascii ''Rejected '' @ [10060, 10] @ password,
               result_fg := ''#d32f2f''\<rparr>, None))"

text \<open>
  The window as the constructor leaves it: an empty entry, every label crossed and red,
  an empty strength bar and strength text, and a result label with no text (its colour
  is the toolkit's default, written as the empty string).
\<close>

definition initial_gui :: "ucd \<Rightarrow> gui" where
  "initial_gui U =
     \<lparr>pwd_entry = [],
      req_labels = map (\<lambda>(text, check). ([10007, 32] @ ascii text, ''#d32f2f'')) (requirements U),
      strength_bar = [],
      strength_var = [],
      result_text = [],
      result_fg = []\<rparr>"

section \<open>The eleven rules in the words of the specification\<close>

text \<open>
  Section 4.1 of the specification lists eleven rules. Each is written here as the
  specification words it, to be compared with what \<open>is_valid_password\<close> decides:
  \<^item> rule 1: the password equals no entry of the denylist;
  \<^item> rule 2: its length is at least 8;
  \<^item> rule 3: no character of it is classified as whitespace;
  \<^item> rules 4, 5, 6: some character is classified as an uppercase letter, as a
    lowercase letter, as a decimal digit;
  \<^item> rule 7: some character is in the fixed symbol set;
  \<^item> rule 8: no character's occurrence count exceeds half the length, rounded down;
  \<^item> rule 9: the lowercased password contains none of the fixed substrings as a
    contiguous substring;
  \<^item> rule 10: for neither group does the sum of the occurrences of the group's
    characters exceed half the length, rounded down;
  \<^item> rule 11: a letter of either case, a digit (as in rule 6) and a character of the
    symbol set of rule 7 are all present.
\<close>

definition spec_common_passwords :: "str set" where
  "spec_common_passwords = {ascii ''password'', ascii ''123456'', ascii ''qwerty'',
     ascii ''letmein'', ascii ''admin'', ascii ''iloveyou''}"

definition spec_symbol_set :: "cp set" where
  \<open>spec_symbol_set = set (ascii ''!@#$%^&*(),.?":{}|<>'')\<close>

definition spec_keyboard_substrings :: "str set" where
  "spec_keyboard_substrings = {ascii ''qwerty'', ascii ''asdfgh'', ascii ''zxcvbn'',
     ascii ''12345'', ascii ''password''}"

definition spec_ambiguous_groups :: "str set" where
  "spec_ambiguous_groups = {ascii ''l1I'', ascii ''O0o''}"

definition spec_not_common :: "str \<Rightarrow> bool" where
  "spec_not_common p \<longleftrightarrow> p \<notin> spec_common_passwords"

definition spec_min_length :: "str \<Rightarrow> bool" where
  "spec_min_length p \<longleftrightarrow> length p \<ge> 8"

definition spec_no_whitespace :: "ucd \<Rightarrow> str \<Rightarrow> bool" where
  "spec_no_whitespace U p \<longleftrightarrow> \<not> (\<exists>c\<in>set p. isspace U c)"

definition spec_has_uppercase :: "ucd \<Rightarrow> str \<Rightarrow> bool" where
  "spec_has_uppercase U p \<longleftrightarrow> (\<exists>c\<in>set p. isupper U c)"

definition spec_has_lowercase :: "ucd \<Rightarrow> str \<Rightarrow> bool" where
  "spec_has_lowercase U p \<longleftrightarrow> (\<exists>c\<in>set p. islower U c)"

definition spec_has_digit :: "ucd \<Rightarrow> str \<Rightarrow> bool" where
  "spec_has_digit U p \<longleftrightarrow> (\<exists>c\<in>set p. isdecimal U c)"

definition spec_has_special :: "str \<Rightarrow> bool" where
  "spec_has_special p \<longleftrightarrow> (\<exists>c\<in>set p. c \<in> spec_symbol_set)"

definition spec_no_excessive_repetition :: "str \<Rightarrow> bool" where
  "spec_no_excessive_repetition p \<longleftrightarrow> \<not> (\<exists>c\<in>set p. count_list p c > length p div 2)"

definition spec_no_keyboard_pattern :: "ucd \<Rightarrow> str \<Rightarrow> bool" where
  "spec_no_keyboard_pattern U p \<longleftrightarrow>
     \<not> (\<exists>pat\<in>spec_keyboard_substrings. sublist pat (lower U p))"

definition spec_no_dominant_ambiguous_group :: "str \<Rightarrow> bool" where
  "spec_no_dominant_ambiguous_group p \<longleftrightarrow>
     \<not> (\<exists>grp\<in>spec_ambiguous_groups. sum_list (map (count_list p) grp) > length p div 2)"

definition spec_human_like :: "ucd \<Rightarrow> str \<Rightarrow> bool" where
  "spec_human_like U p \<longleftrightarrow>
     (\<exists>c\<in>set p. isupper U c \<or> islower U c) \<and> (\<exists>c\<in>set p. isdecimal U c)
     \<and> (\<exists>c\<in>set p. c \<in> spec_symbol_set)"

section \<open>Facts about the string primitives\<close>

lemma truthy_re_search: "truthy (re_search cls s) \<longleftrightarrow> (\<exists>c\<in>set s. cls c)"
  by (induction s) (auto simp: truthy_def)

lemma py_any_map: "py_any (map P s) \<longleftrightarrow> (\<exists>c\<in>set s. P c)"
  by (induction s) auto

lemma startswith_prefix: "startswith s pat \<longleftrightarrow> prefix pat s"
  by (induction s pat rule: startswith.induct) auto

lemma str_contains_sublist: "str_contains s pat \<longleftrightarrow> sublist pat s"
  by (induction s) (auto simp: startswith_prefix sublist_Cons_right)

lemma repetition_loop_iff:
  "repetition_loop p cs \<longleftrightarrow> (\<exists>c\<in>set cs. count_list p c > length p div 2)"
  by (induction cs) auto

lemma has_excessive_repetition_iff:
  "has_excessive_repetition p \<longleftrightarrow> (\<exists>c. count_list p c > length p div 2)"
proof -
  have "count_list p c > length p div 2 \<Longrightarrow> c \<in> set p" for c
    using count_list_0_iff [of p c] by (cases "c \<in> set p") simp_all
  then show ?thesis
    unfolding has_excessive_repetition_def repetition_loop_iff by auto
qed

lemma count_list_two: "c \<noteq> d \<Longrightarrow> count_list p c + count_list p d \<le> length p"
  by (induction p) auto

lemma looks_human_like_iff:
  "looks_human_like U p \<longleftrightarrow>
     (\<exists>c\<in>set p. cls_letter c) \<and> (\<exists>c\<in>set p. isdecimal U c) \<and> (\<exists>c\<in>set p. c \<in> set SPECIAL_CHARS)"
  by (simp add: looks_human_like_def truthy_re_search cls_d_def cls_special_def)

lemma upper_AZ_isupper: "cls_upper_AZ c \<Longrightarrow> isupper U c"
  by (simp add: cls_upper_AZ_def isupper_def latin1_upper_def)

lemma lower_az_islower: "cls_lower_az c \<Longrightarrow> islower U c"
  by (simp add: cls_lower_az_def islower_def latin1_lower_def)

lemma ascii_isupper: "c < 128 \<Longrightarrow> isupper U c = cls_upper_AZ c"
  by (auto simp: cls_upper_AZ_def isupper_def latin1_upper_def)

lemma ascii_islower: "c < 128 \<Longrightarrow> islower U c = cls_lower_az c"
  by (auto simp: cls_lower_az_def islower_def latin1_lower_def)

lemma ascii_isdigit: "c < 128 \<Longrightarrow> isdigit U c = isdecimal U c"
  by (auto simp: isdigit_def latin1_digit_other_def)

text \<open>The four classes that rules 4 to 7 look for have no character in common.\<close>

lemma classes_distinct:
  assumes "cls_upper_AZ a" "cls_lower_az b" "isdecimal U c" "cls_special d"
  shows "distinct [a, b, c, d]"
proof -
  have a: "65 \<le> a \<and> a \<le> 90" using assms(1) by (simp add: cls_upper_AZ_def)
  have b: "97 \<le> b \<and> b \<le> 122" using assms(2) by (simp add: cls_lower_az_def)
  have c: "(48 \<le> c \<and> c \<le> 57) \<or> 256 \<le> c"
    using assms(3) by (simp add: isdecimal_def latin1_decimal_def split: if_splits)
  have d: "d \<in> {33, 64, 35, 36, 37, 94, 38, 42, 40, 41, 44, 46, 63, 34, 58, 123, 125, 124, 60, 62}"
    using assms(4) by (simp add: cls_special_def SPECIAL_CHARS_def ascii_def)
  have "a \<noteq> b" "a \<noteq> c" "b \<noteq> c" using a b c by auto
  moreover have "a \<noteq> d" using a d by auto
  moreover have "b \<noteq> d" using b d by auto
  moreover have "c \<noteq> d" using c d by auto
  ultimately show ?thesis by simp
qed

section \<open>Facts about the two modules\<close>

text \<open>What a password that \<open>is_valid_password\<close> accepts has passed on the way.\<close>

lemma valid_baseline:
  assumes "is_valid_password U p"
  shows "p \<notin> COMMON_PASSWORDS" "\<not> length p < 8" "\<not> truthy (re_search (cls_s U) p)"
    "truthy (re_search cls_upper_AZ p)" "truthy (re_search cls_lower_az p)"
    "truthy (re_search (cls_d U) p)" "truthy (re_search cls_special p)"
  using assms by (simp_all add: is_valid_password_def split: if_splits)

lemma short_password_rejected: "length p < 8 \<Longrightarrow> \<not> is_valid_password U p"
  by (simp add: is_valid_password_def)

text \<open>The chain of early returns as a conjunction of the eleven checks it makes.\<close>

lemma is_valid_password_conj:
  "is_valid_password U p \<longleftrightarrow>
     p \<notin> COMMON_PASSWORDS
     \<and> 8 \<le> length p
     \<and> \<not> (\<exists>c\<in>set p. isspace U c)
     \<and> (\<exists>c\<in>set p. cls_upper_AZ c)
     \<and> (\<exists>c\<in>set p. cls_lower_az c)
     \<and> (\<exists>c\<in>set p. isdecimal U c)
     \<and> (\<exists>c\<in>set p. c \<in> set SPECIAL_CHARS)
     \<and> \<not> has_excessive_repetition p
     \<and> \<not> has_keyboard_pattern U p
     \<and> \<not> has_ambiguous_characters p
     \<and> looks_human_like U p"
  unfolding is_valid_password_def truthy_re_search cls_s_def cls_d_def cls_special_def
  by (simp add: not_less)

text \<open>The three loops of the advanced checks against rules 8, 9 and 10 as worded.\<close>

lemma has_excessive_repetition_spec:
  "has_excessive_repetition p \<longleftrightarrow> \<not> spec_no_excessive_repetition p"
  by (simp add: has_excessive_repetition_def repetition_loop_iff spec_no_excessive_repetition_def)

lemma pattern_loop_iff:
  "pattern_loop U p pats \<longleftrightarrow> (\<exists>pat\<in>set pats. sublist pat (lower U p))"
  by (induction pats) (auto simp: str_contains_sublist)

lemma has_keyboard_pattern_spec:
  "has_keyboard_pattern U p \<longleftrightarrow> \<not> spec_no_keyboard_pattern U p"
  by (simp add: has_keyboard_pattern_def pattern_loop_iff patterns_def
      spec_no_keyboard_pattern_def spec_keyboard_substrings_def)

lemma spec_no_keyboard_pattern_eval:
  "spec_no_keyboard_pattern U p = (\<not> has_keyboard_pattern U p)"
  by (simp add: has_keyboard_pattern_spec)

lemma ambiguous_loop_iff:
  "ambiguous_loop p gs \<longleftrightarrow>
     (\<exists>grp\<in>set gs. sum_list (map (count_list p) grp) > length p div 2)"
  by (induction gs) auto

lemma has_ambiguous_characters_spec:
  "has_ambiguous_characters p \<longleftrightarrow> \<not> spec_no_dominant_ambiguous_group p"
  by (simp add: has_ambiguous_characters_def ambiguous_loop_iff ambiguous_groups_def
      spec_no_dominant_ambiguous_group_def spec_ambiguous_groups_def)

text \<open>The decision with every rule as worded, the letters being those of \<open>A-Z\<close>, \<open>a-z\<close>.\<close>

lemma is_valid_password_ascii_rules:
  "is_valid_password U p \<longleftrightarrow>
     spec_not_common p
     \<and> spec_min_length p
     \<and> spec_no_whitespace U p
     \<and> (\<exists>c\<in>set p. 65 \<le> c \<and> c \<le> 90)
     \<and> (\<exists>c\<in>set p. 97 \<le> c \<and> c \<le> 122)
     \<and> spec_has_digit U p
     \<and> spec_has_special p
     \<and> spec_no_excessive_repetition p
     \<and> spec_no_keyboard_pattern U p
     \<and> spec_no_dominant_ambiguous_group p
     \<and> ((\<exists>c\<in>set p. (65 \<le> c \<and> c \<le> 90) \<or> (97 \<le> c \<and> c \<le> 122))
          \<and> (\<exists>c\<in>set p. isdecimal U c) \<and> (\<exists>c\<in>set p. c \<in> spec_symbol_set))"
  unfolding is_valid_password_conj looks_human_like_iff has_keyboard_pattern_spec
    has_ambiguous_characters_spec has_excessive_repetition_spec
  by (simp add: spec_not_common_def spec_common_passwords_def COMMON_PASSWORDS_def
      spec_min_length_def spec_no_whitespace_def spec_has_digit_def spec_has_special_def
      spec_symbol_set_def SPECIAL_CHARS_def cls_letter_def cls_upper_AZ_def cls_lower_az_def)

text \<open>On a string every operation of the function is defined.\<close>

lemma py_is_valid_password_Str:
  "py_is_valid_password U (Str p) = Inr (is_valid_password U p)"
  by (simp add: py_in_common_def py_len_def py_re_search_def py_has_excessive_repetition_def
      py_has_keyboard_pattern_def py_has_ambiguous_characters_def py_looks_human_like_def
      return_false_if_def py_is_valid_password_def is_valid_password_def)

text \<open>Each checklist lambda against the check \<open>is_valid_password\<close> makes for the same rule.\<close>

lemma check_length_eq: "check_length p = (\<not> length p < 8)"
  by (simp add: check_length_def not_less)

lemma check_special_eq: "check_special p = truthy (re_search cls_special p)"
  by (simp add: check_special_def py_any_map truthy_re_search cls_special_def SPECIAL_CHARS_def)

lemma check_no_whitespace_eq: "check_no_whitespace U p = (\<not> truthy (re_search (cls_s U) p))"
  by (simp add: check_no_whitespace_def py_any_map truthy_re_search cls_s_def)

lemma check_not_common_eq: "check_not_common p = (p \<notin> COMMON_PASSWORDS)"
  by (simp add: check_not_common_def COMMON_PASSWORDS_def)

lemma baseline_upper_check: "truthy (re_search cls_upper_AZ p) \<Longrightarrow> check_upper U p"
  unfolding check_upper_def py_any_map truthy_re_search using upper_AZ_isupper by blast

lemma baseline_lower_check: "truthy (re_search cls_lower_az p) \<Longrightarrow> check_lower U p"
  unfolding check_lower_def py_any_map truthy_re_search using lower_az_islower by blast

lemma baseline_digit_check: "truthy (re_search (cls_d U) p) \<Longrightarrow> check_digit U p"
  by (auto simp: check_digit_def py_any_map truthy_re_search cls_d_def isdigit_def)

lemma gui_score_sum:
  "gui_score U p = of_bool (check_length p) + of_bool (check_upper U p)
     + of_bool (check_lower U p) + of_bool (check_digit U p) + of_bool (check_special p)
     + of_bool (check_no_whitespace U p) + of_bool (check_not_common p)"
  by (simp add: gui_score_def requirements_def)

lemma sum_list_of_bool:
  "sum_list (map (\<lambda>f. of_bool (f p)) fs) = int (length (filter (\<lambda>f. f p) fs))"
  by (induction fs) auto

lemma gui_score_count:
  "gui_score U p = int (length (filter (\<lambda>check. check p) (map snd (requirements U))))"
proof -
  have "gui_score U p = sum_list (map (\<lambda>f. of_bool (f p)) (map snd (requirements U)))"
    by (simp add: gui_score_def requirements_def)
  then show ?thesis by (simp only: sum_list_of_bool)
qed

lemma strength_var_on_password_change:
  "strength_var (on_password_change U g)
     = ascii ''Password strength: '' @ ascii (snd (strength (gui_score U (pwd_entry g))))"
  by (simp add: on_password_change_def Let_def split: prod.splits)

text \<open>The unfoldings that evaluate the functions on a concrete string.\<close>

lemmas class_defs = cls_s_def cls_d_def isspace_def isdecimal_def isdigit_def isupper_def
  islower_def latin1_space_def latin1_decimal_def latin1_digit_other_def latin1_upper_def
  latin1_lower_def cls_upper_AZ_def cls_lower_az_def cls_letter_def cls_special_def
  SPECIAL_CHARS_def

lemmas validator_defs = is_valid_password_def ascii_def COMMON_PASSWORDS_def truthy_def
  has_excessive_repetition_def has_keyboard_pattern_def patterns_def lower_def
  latin1_tolower_def has_ambiguous_characters_def ambiguous_groups_def looks_human_like_def

lemmas gui_defs = check_length_def check_upper_def check_lower_def check_digit_def
  check_special_def check_no_whitespace_def check_not_common_def requirements_def
  gui_score_def strength_def on_password_change_def

lemmas spec_defs = spec_not_common_def spec_common_passwords_def spec_min_length_def
  spec_no_whitespace_def spec_has_uppercase_def spec_has_lowercase_def spec_has_digit_def
  spec_has_special_def spec_symbol_set_def spec_no_excessive_repetition_def
  spec_no_dominant_ambiguous_group_def spec_ambiguous_groups_def spec_human_like_def

lemmas py_defs = py_in_common_def py_len_def py_re_search_def py_has_excessive_repetition_def
  py_has_keyboard_pattern_def py_has_ambiguous_characters_def py_looks_human_like_def
  return_false_if_def py_is_valid_password_def

text \<open>The first password of the module's list of accepted passwords.\<close>

lemma strong_pass_valid: "is_valid_password U (ascii ''StrongPass1!'')"
  by (simp add: validator_defs class_defs)

section \<open>The decision and the eleven rules\<close>

text \<open>
  C1, as stated: \<open>is_valid_password\<close> returns true exactly when each of the eleven
  rules of section 4.1 holds of the password. It fails on the nine-character password
  whose first code point is 199 (capital C with cedilla) followed by \<open>ava2024!\<close>:
  every one of the eleven rules holds of it, the cedilla being its uppercase letter, and
  \<open>is_valid_password\<close> returns false, for the search for \<open>[A-Z]\<close> finds nothing.
\<close>

theorem eleven_rules_counterexample:
  "\<forall>U. spec_not_common [199, 97, 118, 97, 50, 48, 50, 52, 33]
     \<and> spec_min_length [199, 97, 118, 97, 50, 48, 50, 52, 33]
     \<and> spec_no_whitespace U [199, 97, 118, 97, 50, 48, 50, 52, 33]
     \<and> spec_has_uppercase U [199, 97, 118, 97, 50, 48, 50, 52, 33]
     \<and> spec_has_lowercase U [199, 97, 118, 97, 50, 48, 50, 52, 33]
     \<and> spec_has_digit U [199, 97, 118, 97, 50, 48, 50, 52, 33]
     \<and> spec_has_special [199, 97, 118, 97, 50, 48, 50, 52, 33]
     \<and> spec_no_excessive_repetition [199, 97, 118, 97, 50, 48, 50, 52, 33]
     \<and> spec_no_keyboard_pattern U [199, 97, 118, 97, 50, 48, 50, 52, 33]
     \<and> spec_no_dominant_ambiguous_group [199, 97, 118, 97, 50, 48, 50, 52, 33]
     \<and> spec_human_like U [199, 97, 118, 97, 50, 48, 50, 52, 33]
     \<and> is_valid_password U [199, 97, 118, 97, 50, 48, 50, 52, 33] = False"
  by (simp add: spec_no_keyboard_pattern_eval spec_defs validator_defs class_defs)

text \<open>
  C1, amended. \<open>is_valid_password\<close> returns true exactly when each of the eleven rules
  holds of the password, the uppercase letter of rule 4, the lowercase letter of rule 5
  and the letter of rule 11 being letters of \<open>A-Z\<close> and \<open>a-z\<close> (code points 65 to
  90 and 97 to 122); and whenever it returns true, each of the eleven rules holds as
  section 4.1 words it.
\<close>

theorem is_valid_password_rules:
  "(is_valid_password U p \<longleftrightarrow>
     spec_not_common p
     \<and> spec_min_length p
     \<and> spec_no_whitespace U p
     \<and> (\<exists>c\<in>set p. 65 \<le> c \<and> c \<le> 90)
     \<and> (\<exists>c\<in>set p. 97 \<le> c \<and> c \<le> 122)
     \<and> spec_has_digit U p
     \<and> spec_has_special p
     \<and> spec_no_excessive_repetition p
     \<and> spec_no_keyboard_pattern U p
     \<and> spec_no_dominant_ambiguous_group p
     \<and> ((\<exists>c\<in>set p. (65 \<le> c \<and> c \<le> 90) \<or> (97 \<le> c \<and> c \<le> 122))
          \<and> (\<exists>c\<in>set p. isdecimal U c) \<and> (\<exists>c\<in>set p. c \<in> spec_symbol_set)))
   \<and> (is_valid_password U p \<longrightarrow>
     spec_not_common p \<and> spec_min_length p \<and> spec_no_whitespace U p
     \<and> spec_has_uppercase U p \<and> spec_has_lowercase U p \<and> spec_has_digit U p
     \<and> spec_has_special p \<and> spec_no_excessive_repetition p
     \<and> spec_no_keyboard_pattern U p \<and> spec_no_dominant_ambiguous_group p
     \<and> spec_human_like U p)"
proof (rule conjI)
  show "is_valid_password U p \<longleftrightarrow>
     spec_not_common p
     \<and> spec_min_length p
     \<and> spec_no_whitespace U p
     \<and> (\<exists>c\<in>set p. 65 \<le> c \<and> c \<le> 90)
     \<and> (\<exists>c\<in>set p. 97 \<le> c \<and> c \<le> 122)
     \<and> spec_has_digit U p
     \<and> spec_has_special p
     \<and> spec_no_excessive_repetition p
     \<and> spec_no_keyboard_pattern U p
     \<and> spec_no_dominant_ambiguous_group p
     \<and> ((\<exists>c\<in>set p. (65 \<le> c \<and> c \<le> 90) \<or> (97 \<le> c \<and> c \<le> 122))
          \<and> (\<exists>c\<in>set p. isdecimal U c) \<and> (\<exists>c\<in>set p. c \<in> spec_symbol_set))"
    by (rule is_valid_password_ascii_rules)
next
  show "is_valid_password U p \<longrightarrow>
     spec_not_common p \<and> spec_min_length p \<and> spec_no_whitespace U p
     \<and> spec_has_uppercase U p \<and> spec_has_lowercase U p \<and> spec_has_digit U p
     \<and> spec_has_special p \<and> spec_no_excessive_repetition p
     \<and> spec_no_keyboard_pattern U p \<and> spec_no_dominant_ambiguous_group p
     \<and> spec_human_like U p"
  proof
    assume v: "is_valid_password U p"
    note r = v [unfolded is_valid_password_ascii_rules]
    obtain a where a: "a \<in> set p" "65 \<le> a \<and> a \<le> 90" using r by blast
    obtain b where b: "b \<in> set p" "97 \<le> b \<and> b \<le> 122" using r by blast
    have "isupper U a" using a(2) by (simp add: isupper_def latin1_upper_def)
    with a(1) have u: "spec_has_uppercase U p"
      unfolding spec_has_uppercase_def by blast
    have "islower U b" using b(2) by (simp add: islower_def latin1_lower_def)
    with b(1) have l: "spec_has_lowercase U p"
      unfolding spec_has_lowercase_def by blast
    have d: "spec_has_digit U p" and s: "spec_has_special p" using r by blast+
    have h: "spec_human_like U p"
      using u d s
      unfolding spec_human_like_def spec_has_uppercase_def spec_has_digit_def
        spec_has_special_def
      by blast
    show "spec_not_common p \<and> spec_min_length p \<and> spec_no_whitespace U p
     \<and> spec_has_uppercase U p \<and> spec_has_lowercase U p \<and> spec_has_digit U p
     \<and> spec_has_special p \<and> spec_no_excessive_repetition p
     \<and> spec_no_keyboard_pattern U p \<and> spec_no_dominant_ambiguous_group p
     \<and> spec_human_like U p"
      using r u l h by blast
  qed
qed

theorem is_valid_password_rules_witness:
  "\<forall>U. is_valid_password U (ascii ''StrongPass1!'')
     \<and> spec_has_uppercase U (ascii ''StrongPass1!'')
     \<and> spec_no_keyboard_pattern U (ascii ''StrongPass1!'')
     \<and> \<not> is_valid_password U (ascii ''Qwerty123!'')"
proof
  fix U
  have a: "is_valid_password U (ascii ''StrongPass1!'')"
    by (rule strong_pass_valid)
  have b: "\<not> spec_no_keyboard_pattern U (ascii ''Qwerty123!'')"
    by (simp add: spec_no_keyboard_pattern_eval validator_defs class_defs)
  show "is_valid_password U (ascii ''StrongPass1!'')
     \<and> spec_has_uppercase U (ascii ''StrongPass1!'')
     \<and> spec_no_keyboard_pattern U (ascii ''StrongPass1!'')
     \<and> \<not> is_valid_password U (ascii ''Qwerty123!'')"
    using is_valid_password_rules [of U "ascii ''StrongPass1!''"]
      is_valid_password_rules [of U "ascii ''Qwerty123!''"] a b
    by blast
qed

section \<open>The repetition rule\<close>

text \<open>
  C4. \<open>has_excessive_repetition\<close> returns true exactly when some character occurs in the
  password more than \<open>len(password) // 2\<close> times. In a password of length 8, a character
  occurring exactly 4 times leaves the rule silent (no other character can then occur
  more than 4 times), and a character occurring 5 times triggers it.
\<close>

theorem has_excessive_repetition_threshold:
  "(has_excessive_repetition p \<longleftrightarrow> (\<exists>c. count_list p c > length p div 2))
   \<and> (length p = 8 \<and> count_list p c = 4 \<longrightarrow> \<not> has_excessive_repetition p)
   \<and> (length p = 8 \<and> count_list p c = 5 \<longrightarrow> has_excessive_repetition p)"
proof (intro conjI impI)
  show "has_excessive_repetition p \<longleftrightarrow> (\<exists>c. count_list p c > length p div 2)"
    by (rule has_excessive_repetition_iff)
next
  assume h: "length p = 8 \<and> count_list p c = 4"
  have "count_list p d \<le> 4" for d
  proof (cases "d = c")
    case True
    with h show ?thesis by simp
  next
    case False
    then show ?thesis using count_list_two [of c d p] h by simp
  qed
  then have "\<not> (\<exists>d. count_list p d > length p div 2)"
    using h by (auto simp: not_less)
  then show "\<not> has_excessive_repetition p"
    by (simp add: has_excessive_repetition_iff)
next
  assume "length p = 8 \<and> count_list p c = 5"
  then have "count_list p c > length p div 2" by simp
  then show "has_excessive_repetition p"
    unfolding has_excessive_repetition_iff by blast
qed

theorem has_excessive_repetition_threshold_witness:
  "\<not> has_excessive_repetition (ascii ''aaaaBc1!'')
   \<and> has_excessive_repetition (ascii ''aaaaaBc1'')
   \<and> \<not> has_excessive_repetition (ascii ''aaaBc1!'')
   \<and> has_excessive_repetition (ascii ''aaaaBc1'')"
proof -
  have l: "length (ascii ''aaaaBc1!'') = 8 \<and> count_list (ascii ''aaaaBc1!'') 97 = 4"
    by (simp add: ascii_def)
  have m: "length (ascii ''aaaaaBc1'') = 8 \<and> count_list (ascii ''aaaaaBc1'') 97 = 5"
    by (simp add: ascii_def)
  have n: "\<not> has_excessive_repetition (ascii ''aaaBc1!'')
    \<and> has_excessive_repetition (ascii ''aaaaBc1'')"
    by (simp add: ascii_def has_excessive_repetition_def)
  show ?thesis
    using has_excessive_repetition_threshold [of "ascii ''aaaaBc1!''" 97]
      has_excessive_repetition_threshold [of "ascii ''aaaaaBc1''" 97] l m n
    by blast
qed

section \<open>The ambiguous-character rule\<close>

text \<open>
  C5. \<open>has_ambiguous_characters\<close> returns true exactly when the occurrences of
  \<open>l\<close>, \<open>1\<close> and \<open>I\<close> together, or those of \<open>O\<close>, \<open>0\<close> and \<open>o\<close> together,
  number more than \<open>len(password) // 2\<close>. The counts are of these six code points
  themselves: nothing is case-folded.
\<close>

theorem has_ambiguous_characters_iff:
  "has_ambiguous_characters p \<longleftrightarrow>
     count_list p (of_char CHR ''l'') + count_list p (of_char CHR ''1'')
         + count_list p (of_char CHR ''I'') > length p div 2
     \<or> count_list p (of_char CHR ''O'') + count_list p (of_char CHR ''0'')
         + count_list p (of_char CHR ''o'') > length p div 2"
  by (simp add: has_ambiguous_characters_def ambiguous_groups_def ascii_def add.assoc)

theorem has_ambiguous_characters_iff_witness:
  "has_ambiguous_characters (ascii ''l1IlA!'')
   \<and> \<not> has_ambiguous_characters (ascii ''l1ILi!'')
   \<and> has_ambiguous_characters (ascii ''O0oB'')
   \<and> \<not> has_ambiguous_characters (ascii ''O0bB'')"
  using has_ambiguous_characters_iff [of "ascii ''l1IlA!''"]
    has_ambiguous_characters_iff [of "ascii ''l1ILi!''"]
    has_ambiguous_characters_iff [of "ascii ''O0oB''"]
    has_ambiguous_characters_iff [of "ascii ''O0bB''"]
  by (simp add: ascii_def)

section \<open>Rule 11 follows from rules 4 to 7\<close>

text \<open>
  C6. A password on which the four searches for \<open>[A-Z]\<close>, \<open>[a-z]\<close>, \<open>\d\<close> and the
  special set all succeed looks human-like: \<open>looks_human_like\<close> returns true on it.
\<close>

theorem baseline_implies_looks_human_like:
  "truthy (re_search cls_upper_AZ p) \<Longrightarrow> truthy (re_search cls_lower_az p) \<Longrightarrow>
   truthy (re_search (cls_d U) p) \<Longrightarrow> truthy (re_search cls_special p) \<Longrightarrow>
   looks_human_like U p"
  unfolding looks_human_like_iff truthy_re_search cls_d_def cls_special_def cls_letter_def
  by blast

theorem baseline_implies_looks_human_like_witness:
  "\<forall>U. looks_human_like U (ascii ''Aa1!'')"
proof
  fix U
  have "truthy (re_search cls_upper_AZ (ascii ''Aa1!''))"
    "truthy (re_search cls_lower_az (ascii ''Aa1!''))"
    "truthy (re_search (cls_d U) (ascii ''Aa1!''))"
    "truthy (re_search cls_special (ascii ''Aa1!''))"
    by (simp_all add: ascii_def truthy_def class_defs)
  then show "looks_human_like U (ascii ''Aa1!'')"
    by (rule baseline_implies_looks_human_like)
qed

section \<open>The checklist of the window and the checks of the validator\<close>

text \<open>
  Where the two agree: the length, special-character, no-whitespace and not-common
  predicates of the checklist return what the validator's checks return; for uppercase,
  lowercase and digit the checklist predicate holds whenever the validator's search
  succeeds, and the two agree on a password made of ASCII characters only.
\<close>

lemma checklist_agreement:
  "check_length p = (\<not> length p < 8)
   \<and> check_special p = truthy (re_search cls_special p)
   \<and> check_no_whitespace U p = (\<not> truthy (re_search (cls_s U) p))
   \<and> check_not_common p = (p \<notin> COMMON_PASSWORDS)
   \<and> (truthy (re_search cls_upper_AZ p) \<longrightarrow> check_upper U p)
   \<and> (truthy (re_search cls_lower_az p) \<longrightarrow> check_lower U p)
   \<and> (truthy (re_search (cls_d U) p) \<longrightarrow> check_digit U p)
   \<and> ((\<forall>c\<in>set p. c < 128) \<longrightarrow>
        check_upper U p = truthy (re_search cls_upper_AZ p)
        \<and> check_lower U p = truthy (re_search cls_lower_az p)
        \<and> check_digit U p = truthy (re_search (cls_d U) p))"
proof -
  have "check_upper U p = truthy (re_search cls_upper_AZ p)"
    "check_lower U p = truthy (re_search cls_lower_az p)"
    "check_digit U p = truthy (re_search (cls_d U) p)" if "\<forall>c\<in>set p. c < 128"
    using that
    by (auto simp: check_upper_def check_lower_def check_digit_def py_any_map truthy_re_search
        cls_d_def ascii_isupper ascii_islower ascii_isdigit)
  then show ?thesis
    using check_length_eq check_special_eq check_no_whitespace_eq check_not_common_eq
      baseline_upper_check baseline_lower_check baseline_digit_check
    by blast
qed

text \<open>
  C2. Each of the seven checklist predicates should return the same boolean as the check
  \<open>is_valid_password\<close> makes for the same rule. The code departs from this on three
  ten-character passwords, each of which reaches the search it is compared with:
  \<^item> code point 201 (capital E with acute) followed by \<open>cole2024!\<close>: the uppercase
    predicate holds and the search for \<open>[A-Z]\<close> finds nothing; the window scores 7 and
    shows Strong, \<open>is_valid_password\<close> returns false and \<open>validate_password\<close> writes
    Rejected;
  \<^item> \<open>COLE\<close>, code point 233 (small e with acute), \<open>2024!\<close>: the lowercase predicate
    holds, the search for \<open>[A-Z]\<close> succeeds and the search for \<open>[a-z]\<close> finds nothing;
  \<^item> \<open>Ecole\<close>, code point 178 (superscript two), \<open>abc!\<close>: the digit predicate holds,
    the searches for \<open>[A-Z]\<close> and \<open>[a-z]\<close> succeed and the search for \<open>\d\<close> finds
    nothing.
\<close>

theorem checklist_diverges_from_validator:
  "\<forall>U. check_upper U [201, 99, 111, 108, 101, 50, 48, 50, 52, 33]
     \<and> truthy (re_search cls_upper_AZ [201, 99, 111, 108, 101, 50, 48, 50, 52, 33]) = False
     \<and> gui_score U [201, 99, 111, 108, 101, 50, 48, 50, 52, 33] = 7
     \<and> strength_var (on_password_change U
          ((initial_gui U)\<lparr>pwd_entry := [201, 99, 111, 108, 101, 50, 48, 50, 52, 33]\<rparr>))
         = ascii ''Password strength: Strong''
     \<and> is_valid_password U [201, 99, 111, 108, 101, 50, 48, 50, 52, 33] = False
     \<and> result_text (fst (validate_password U
          ((initial_gui U)\<lparr>pwd_entry := [201, 99, 111, 108, 101, 50, 48, 50, 52, 33]\<rparr>)))
         = ascii ''Rejected '' @ [10060, 10] @ [201, 99, 111, 108, 101, 50, 48, 50, 52, 33]
     \<and> check_lower U [67, 79, 76, 69, 233, 50, 48, 50, 52, 33]
     \<and> truthy (re_search cls_upper_AZ [67, 79, 76, 69, 233, 50, 48, 50, 52, 33])
     \<and> truthy (re_search cls_lower_az [67, 79, 76, 69, 233, 50, 48, 50, 52, 33]) = False
     \<and> gui_score U [67, 79, 76, 69, 233, 50, 48, 50, 52, 33] = 7
     \<and> is_valid_password U [67, 79, 76, 69, 233, 50, 48, 50, 52, 33] = False
     \<and> check_digit U [69, 99, 111, 108, 101, 178, 97, 98, 99, 33]
     \<and> truthy (re_search cls_upper_AZ [69, 99, 111, 108, 101, 178, 97, 98, 99, 33])
     \<and> truthy (re_search cls_lower_az [69, 99, 111, 108, 101, 178, 97, 98, 99, 33])
     \<and> truthy (re_search (cls_d U) [69, 99, 111, 108, 101, 178, 97, 98, 99, 33]) = False
     \<and> gui_score U [69, 99, 111, 108, 101, 178, 97, 98, 99, 33] = 7
     \<and> is_valid_password U [69, 99, 111, 108, 101, 178, 97, 98, 99, 33] = False"
  by (simp add: validate_password_def Let_def initial_gui_def gui_defs validator_defs class_defs)

section \<open>The uppercase rule of the validator\<close>

text \<open>
  C3, as stated: the uppercase rule of \<open>is_valid_password\<close> passes exactly when the
  password has a character that Unicode classifies as uppercase. It fails on the
  ten-character password whose first code point is 201 (capital E with acute) followed by
  \<open>cole2024!\<close>: the password has an uppercase character, the search for \<open>[A-Z]\<close>
  finds nothing, and \<open>is_valid_password\<close> returns false.
\<close>

theorem uppercase_rule_counterexample:
  "\<forall>U. (\<exists>c\<in>set [201, 99, 111, 108, 101, 50, 48, 50, 52, 33]. isupper U c)
     \<and> \<not> truthy (re_search cls_upper_AZ [201, 99, 111, 108, 101, 50, 48, 50, 52, 33])
     \<and> \<not> is_valid_password U [201, 99, 111, 108, 101, 50, 48, 50, 52, 33]"
  by (simp add: validator_defs class_defs)

text \<open>
  C3, amended. The uppercase rule of \<open>is_valid_password\<close> passes exactly when the
  password has a character in the range \<open>A\<close> to \<open>Z\<close> (code points 65 to 90); when it
  passes, the password has a character that Unicode classifies as uppercase.
\<close>

theorem uppercase_rule_ascii:
  "(truthy (re_search cls_upper_AZ p) \<longleftrightarrow> (\<exists>c\<in>set p. 65 \<le> c \<and> c \<le> 90))
   \<and> (truthy (re_search cls_upper_AZ p) \<longrightarrow> (\<exists>c\<in>set p. isupper U c))"
proof -
  have "truthy (re_search cls_upper_AZ p) \<longleftrightarrow> (\<exists>c\<in>set p. 65 \<le> c \<and> c \<le> 90)"
    by (simp add: truthy_re_search cls_upper_AZ_def)
  moreover have "truthy (re_search cls_upper_AZ p) \<longrightarrow> (\<exists>c\<in>set p. isupper U c)"
    unfolding truthy_re_search using upper_AZ_isupper by blast
  ultimately show ?thesis by blast
qed

theorem uppercase_rule_ascii_witness:
  "\<forall>U. truthy (re_search cls_upper_AZ (ascii ''pAss'')) \<and> (\<exists>c\<in>set (ascii ''pAss''). isupper U c)
     \<and> \<not> truthy (re_search cls_upper_AZ (ascii ''pass''))"
proof
  fix U
  have "\<exists>c\<in>set (ascii ''pAss''). 65 \<le> c \<and> c \<le> 90" "\<not> (\<exists>c\<in>set (ascii ''pass''). 65 \<le> c \<and> c \<le> 90)"
    by (simp_all add: ascii_def)
  then show "truthy (re_search cls_upper_AZ (ascii ''pAss'')) \<and> (\<exists>c\<in>set (ascii ''pAss''). isupper U c)
     \<and> \<not> truthy (re_search cls_upper_AZ (ascii ''pass''))"
    using uppercase_rule_ascii [of "ascii ''pAss''" U] uppercase_rule_ascii [of "ascii ''pass''" U]
    by blast
qed

section \<open>The strength score and its band\<close>

text \<open>
  C7. The checklist has the seven predicates length, uppercase, lowercase, digit,
  special, no-whitespace and not-common; the score \<open>on_password_change\<close> computes is
  the number of them that hold of the password, and the strength text it sets is the band
  of that score: Weak up to 3, Medium for 4 and 5, Strong from 6.
\<close>

theorem gui_score_and_band:
  "map snd (requirements U) = [check_length, check_upper U, check_lower U, check_digit U,
      check_special, check_no_whitespace U, check_not_common]
   \<and> gui_score U p = int (length (filter (\<lambda>check. check p) (map snd (requirements U))))
   \<and> strength_var (on_password_change U (g\<lparr>pwd_entry := p\<rparr>))
       = ascii ''Password strength: '' @ ascii (snd (strength (gui_score U p)))
   \<and> (gui_score U p \<le> 3 \<longrightarrow> snd (strength (gui_score U p)) = ''Weak'')
   \<and> (4 \<le> gui_score U p \<and> gui_score U p \<le> 5 \<longrightarrow> snd (strength (gui_score U p)) = ''Medium'')
   \<and> (6 \<le> gui_score U p \<longrightarrow> snd (strength (gui_score U p)) = ''Strong'')"
proof (intro conjI)
  show "map snd (requirements U) = [check_length, check_upper U, check_lower U, check_digit U,
      check_special, check_no_whitespace U, check_not_common]"
    by (simp add: requirements_def)
  show "gui_score U p = int (length (filter (\<lambda>check. check p) (map snd (requirements U))))"
    by (rule gui_score_count)
  show "strength_var (on_password_change U (g\<lparr>pwd_entry := p\<rparr>))
       = ascii ''Password strength: '' @ ascii (snd (strength (gui_score U p)))"
    by (simp add: strength_var_on_password_change)
qed (simp_all add: strength_def)

theorem gui_score_and_band_witness:
  "\<forall>U. gui_score U (ascii ''abc'') = 3
     \<and> strength_var (on_password_change U ((initial_gui U)\<lparr>pwd_entry := ascii ''abc''\<rparr>)) = ascii ''Password strength: Weak''
     \<and> gui_score U (ascii ''abcD1'') = 5
     \<and> strength_var (on_password_change U ((initial_gui U)\<lparr>pwd_entry := ascii ''abcD1''\<rparr>)) = ascii ''Password strength: Medium''
     \<and> gui_score U (ascii ''abcD1!'') = 6
     \<and> strength_var (on_password_change U ((initial_gui U)\<lparr>pwd_entry := ascii ''abcD1!''\<rparr>)) = ascii ''Password strength: Strong''"
proof
  fix U
  have a: "gui_score U (ascii ''abc'') = 3" "gui_score U (ascii ''abcD1'') = 5" "gui_score U (ascii ''abcD1!'') = 6"
    by (simp_all add: gui_defs class_defs ascii_def)
  have w: "strength_var (on_password_change U ((initial_gui U)\<lparr>pwd_entry := ascii ''abc''\<rparr>))
      = ascii ''Password strength: '' @ ascii ''Weak''"
    using gui_score_and_band [of U "ascii ''abc''" "initial_gui U"] a(1) by simp
  have m: "strength_var (on_password_change U ((initial_gui U)\<lparr>pwd_entry := ascii ''abcD1''\<rparr>))
      = ascii ''Password strength: '' @ ascii ''Medium''"
    using gui_score_and_band [of U "ascii ''abcD1''" "initial_gui U"] a(2) by simp
  have s: "strength_var (on_password_change U ((initial_gui U)\<lparr>pwd_entry := ascii ''abcD1!''\<rparr>))
      = ascii ''Password strength: '' @ ascii ''Strong''"
    using gui_score_and_band [of U "ascii ''abcD1!''" "initial_gui U"] a(3) by simp
  show "gui_score U (ascii ''abc'') = 3
     \<and> strength_var (on_password_change U ((initial_gui U)\<lparr>pwd_entry := ascii ''abc''\<rparr>)) = ascii ''Password strength: Weak''
     \<and> gui_score U (ascii ''abcD1'') = 5
     \<and> strength_var (on_password_change U ((initial_gui U)\<lparr>pwd_entry := ascii ''abcD1''\<rparr>)) = ascii ''Password strength: Medium''
     \<and> gui_score U (ascii ''abcD1!'') = 6
     \<and> strength_var (on_password_change U ((initial_gui U)\<lparr>pwd_entry := ascii ''abcD1!''\<rparr>)) = ascii ''Password strength: Strong''"
    using a by (simp add: w m s) (simp add: ascii_def)
qed

section \<open>Every string is a legal input\<close>

text \<open>
  C8. Called on a string, whatever the string, \<open>is_valid_password\<close> raises nothing and
  returns a boolean, the decision of the eleven checks. A string of fewer than 8
  characters is rejected; the empty string in particular is, since it is not a common
  password and its length is below 8.
\<close>

theorem is_valid_password_returns_on_every_string:
  "py_is_valid_password U (Str p) = Inr (is_valid_password U p)
   \<and> (length p < 8 \<longrightarrow> py_is_valid_password U (Str p) = Inr False)
   \<and> py_is_valid_password U (Str []) = Inr False
   \<and> is_valid_password U [] = False
   \<and> py_in_common (Str []) = Inr False
   \<and> map_sum id (\<lambda>n. n < 8) (py_len (Str [])) = Inr True"
proof (intro conjI impI)
  show "py_is_valid_password U (Str p) = Inr (is_valid_password U p)"
    by (rule py_is_valid_password_Str)
  show "py_is_valid_password U (Str p) = Inr False" if "length p < 8"
    using that by (simp add: py_is_valid_password_Str short_password_rejected)
  show "py_is_valid_password U (Str []) = Inr False"
    by (simp add: py_is_valid_password_Str short_password_rejected)
  show "is_valid_password U [] = False"
    by (simp add: short_password_rejected)
  show "py_in_common (Str []) = Inr False"
    by (simp add: py_in_common_def COMMON_PASSWORDS_def ascii_def)
  show "map_sum id (\<lambda>n. n < 8) (py_len (Str [])) = Inr True"
    by (simp add: py_len_def)
qed

theorem is_valid_password_returns_on_every_string_witness:
  "\<forall>U. py_is_valid_password U (Str (ascii ''StrongPass1!'')) = Inr True
     \<and> py_is_valid_password U (Str (ascii ''short1!'')) = Inr False
     \<and> py_is_valid_password U (Str []) = Inr False
     \<and> py_is_valid_password U NoneVal = Inl TypeError"
proof
  fix U
  have a: "is_valid_password U (ascii ''StrongPass1!'')"
    by (rule strong_pass_valid)
  have b: "length (ascii ''short1!'') < 8"
    by (simp add: ascii_def)
  have c: "py_is_valid_password U NoneVal = Inl TypeError"
    by (simp add: py_defs)
  have d: "py_is_valid_password U (Str (ascii ''StrongPass1!'')) = Inr True"
    using is_valid_password_returns_on_every_string [of U "ascii ''StrongPass1!''"] a by simp
  have e: "py_is_valid_password U (Str (ascii ''short1!'')) = Inr False"
    using is_valid_password_returns_on_every_string [of U "ascii ''short1!''"] b by blast
  have f: "py_is_valid_password U (Str []) = Inr False"
    using is_valid_password_returns_on_every_string [of U "[]"] by blast
  show "py_is_valid_password U (Str (ascii ''StrongPass1!'')) = Inr True
     \<and> py_is_valid_password U (Str (ascii ''short1!'')) = Inr False
     \<and> py_is_valid_password U (Str []) = Inr False
     \<and> py_is_valid_password U NoneVal = Inl TypeError"
    using c d e f by blast
qed

section \<open>What an accepted password contains, and how the window shows it\<close>

text \<open>
  C9. An accepted password contains a character of \<open>A-Z\<close>, one of \<open>a-z\<close>, a decimal
  digit and a character of the special set, and these four are pairwise different, as
  any four characters of the four classes are.
\<close>

theorem valid_password_four_distinct_characters:
  "is_valid_password U p \<Longrightarrow>
     (\<exists>a\<in>set p. \<exists>b\<in>set p. \<exists>c\<in>set p. \<exists>d\<in>set p.
        cls_upper_AZ a \<and> cls_lower_az b \<and> isdecimal U c \<and> cls_special d
        \<and> distinct [a, b, c, d])
     \<and> (\<forall>a b c d. cls_upper_AZ a \<and> cls_lower_az b \<and> isdecimal U c \<and> cls_special d
          \<longrightarrow> distinct [a, b, c, d])"
proof -
  assume v: "is_valid_password U p"
  obtain a b c d where *: "a \<in> set p" "b \<in> set p" "c \<in> set p" "d \<in> set p"
    "cls_upper_AZ a" "cls_lower_az b" "isdecimal U c" "cls_special d"
    using valid_baseline(4-7) [OF v] unfolding truthy_re_search cls_d_def by blast
  have "distinct [a, b, c, d]" using * by (intro classes_distinct)
  with * show ?thesis using classes_distinct by blast
qed

theorem valid_password_four_distinct_characters_witness:
  "\<forall>U. \<exists>a\<in>set (ascii ''StrongPass1!''). \<exists>b\<in>set (ascii ''StrongPass1!'').
        \<exists>c\<in>set (ascii ''StrongPass1!''). \<exists>d\<in>set (ascii ''StrongPass1!'').
        cls_upper_AZ a \<and> cls_lower_az b \<and> isdecimal U c \<and> cls_special d
        \<and> distinct [a, b, c, d]"
  using valid_password_four_distinct_characters [OF strong_pass_valid] by blast

text \<open>
  C10. On an accepted password all seven checklist predicates hold, the score is 7 and
  \<open>on_password_change\<close> sets the strength text to Strong; \<open>validate_password\<close> opens
  no warning and writes the Accepted result.
\<close>

theorem valid_password_is_displayed_strong:
  "is_valid_password U p \<Longrightarrow>
     check_length p \<and> check_upper U p \<and> check_lower U p \<and> check_digit U p
     \<and> check_special p \<and> check_no_whitespace U p \<and> check_not_common p
     \<and> gui_score U p = 7
     \<and> strength_var (on_password_change U (g\<lparr>pwd_entry := p\<rparr>))
         = ascii ''Password strength: Strong''
     \<and> snd (validate_password U (g\<lparr>pwd_entry := p\<rparr>)) = None
     \<and> result_text (fst (validate_password U (g\<lparr>pwd_entry := p\<rparr>)))
         = ascii ''Accepted '' @ [9989, 10] @ p"
proof -
  assume v: "is_valid_password U p"
  note b = valid_baseline [OF v]
  have c: "check_length p" "check_upper U p" "check_lower U p" "check_digit U p"
    "check_special p" "check_no_whitespace U p" "check_not_common p"
    using b by (simp_all add: check_length_eq baseline_upper_check baseline_lower_check
        baseline_digit_check check_special_eq check_no_whitespace_eq check_not_common_eq)
  then have s: "gui_score U p = 7"
    by (simp add: gui_score_sum)
  have l: "strength_var (on_password_change U (g\<lparr>pwd_entry := p\<rparr>))
         = ascii ''Password strength: Strong''"
    by (simp add: strength_var_on_password_change s strength_def ascii_def)
  have "p \<noteq> []" using b(2) by auto
  then have r: "validate_password U (g\<lparr>pwd_entry := p\<rparr>)
      = (g\<lparr>pwd_entry := p, result_text := ascii ''Accepted '' @ [9989, 10] @ p,
            result_fg := ''#388e3c''\<rparr>, None)"
    using v by (simp add: validate_password_def)
  show ?thesis using c s l by (simp add: r)
qed

theorem valid_password_is_displayed_strong_witness:
  "\<forall>U. gui_score U (ascii ''StrongPass1!'') = 7
     \<and> strength_var (on_password_change U ((initial_gui U)\<lparr>pwd_entry := ascii ''StrongPass1!''\<rparr>))
         = ascii ''Password strength: Strong''"
proof
  fix U
  have v: "is_valid_password U (ascii ''StrongPass1!'')"
    by (rule strong_pass_valid)
  show "gui_score U (ascii ''StrongPass1!'') = 7
     \<and> strength_var (on_password_change U ((initial_gui U)\<lparr>pwd_entry := ascii ''StrongPass1!''\<rparr>))
         = ascii ''Password strength: Strong''"
    using valid_password_is_displayed_strong [OF v, of "initial_gui U"] by blast
qed

end
